theory Spec2Isabelle
  imports Complex_Main "HOL-Library.Sublist"
begin

section \<open>JavaScript strings\<close>

text \<open>
  A JavaScript string is a sequence of UTF-16 code units. Form values are modelled as
  lists of code units (natural numbers), so that the character classes of the regular
  expressions can be written out in full. Identifiers that the scripts only compare or
  concatenate (input types, class names, language codes, paths, messages) are HOL strings.
\<close>

type_synonym jschar = nat
type_synonym jsstring = "jschar list"

definition js :: "string \<Rightarrow> jsstring" where
  "js s = map of_char s"

text \<open>
  The class \<open>\s\<close> of a regular expression, which is also the set of code units that
  \<open>String.prototype.trim\<close> strips: the WhiteSpace and LineTerminator productions of
  ECMAScript (tab, line feed, vertical tab, form feed, carriage return, space, no-break space,
  U+1680, U+2000 to U+200A, U+2028, U+2029, U+202F, U+205F, U+3000, U+FEFF).
\<close>

definition isWhiteSpace :: "jschar \<Rightarrow> bool" where
  "isWhiteSpace c =
     (c = 9 \<or> c = 10 \<or> c = 11 \<or> c = 12 \<or> c = 13 \<or> c = 32 \<or> c = 160 \<or> c = 5760
      \<or> (8192 \<le> c \<and> c \<le> 8202)
      \<or> c = 8232 \<or> c = 8233 \<or> c = 8239 \<or> c = 8287 \<or> c = 12288 \<or> c = 65279)"

text \<open>The class \<open>\d\<close>: the ten ASCII digits.\<close>

definition isDigit :: "jschar \<Rightarrow> bool" where
  "isDigit c = (48 \<le> c \<and> c \<le> 57)"

definition trim :: "jsstring \<Rightarrow> jsstring" where
  "trim s = rev (dropWhile isWhiteSpace (rev (dropWhile isWhiteSpace s)))"


section \<open>Regular expressions\<close>

text \<open>
  The two patterns of \<open>FormHelpers.validateField\<close> are anchored at both ends
  (\<open>^ ... $\<close>, no flags), have no groups, back-references or look-around, so
  \<open>RegExp.prototype.test\<close> answers whether the whole string belongs to the pattern's
  language. The matcher below decides that by derivatives; \<open>Zero\<close> and \<open>Alt\<close> only
  arise in derivatives.
\<close>

datatype atom = Digit | Space | Lit jschar

datatype regex =
    Zero
  | Eps
  | Chr jschar
  | OneOf "atom list"
  | NoneOf "atom list"
  | Alt regex regex
  | Seq regex regex
  | Star regex

fun atom_matches :: "atom \<Rightarrow> jschar \<Rightarrow> bool" where
  "atom_matches Digit c = isDigit c"
| "atom_matches Space c = isWhiteSpace c"
| "atom_matches (Lit d) c = (c = d)"

definition class_matches :: "atom list \<Rightarrow> jschar \<Rightarrow> bool" where
  "class_matches as c = list_ex (\<lambda>a. atom_matches a c) as"

text \<open>\<open>r+\<close> and \<open>r{n,}\<close>.\<close>

definition Plus :: "regex \<Rightarrow> regex" where
  "Plus r = Seq r (Star r)"

fun AtLeast :: "nat \<Rightarrow> regex \<Rightarrow> regex" where
  "AtLeast 0 r = Star r"
| "AtLeast (Suc n) r = Seq r (AtLeast n r)"

fun nullable :: "regex \<Rightarrow> bool" where
  "nullable Zero = False"
| "nullable Eps = True"
| "nullable (Chr d) = False"
| "nullable (OneOf as) = False"
| "nullable (NoneOf as) = False"
| "nullable (Alt r s) = (nullable r \<or> nullable s)"
| "nullable (Seq r s) = (nullable r \<and> nullable s)"
| "nullable (Star r) = True"

fun deriv :: "jschar \<Rightarrow> regex \<Rightarrow> regex" where
  "deriv c Zero = Zero"
| "deriv c Eps = Zero"
| "deriv c (Chr d) = (if c = d then Eps else Zero)"
| "deriv c (OneOf as) = (if class_matches as c then Eps else Zero)"
| "deriv c (NoneOf as) = (if class_matches as c then Zero else Eps)"
| "deriv c (Alt r s) = Alt (deriv c r) (deriv c s)"
| "deriv c (Seq r s) =
     (if nullable r then Alt (Seq (deriv c r) s) (deriv c s) else Seq (deriv c r) s)"
| "deriv c (Star r) = Seq (deriv c r) (Star r)"

fun regex_test :: "regex \<Rightarrow> jsstring \<Rightarrow> bool" where
  "regex_test r [] = nullable r"
| "regex_test r (c # cs) = regex_test (deriv c r) cs"

text \<open>The language of a pattern, against which the matcher is justified.\<close>

inductive_set star :: "jsstring set \<Rightarrow> jsstring set" for A :: "jsstring set" where
  star_nil: "[] \<in> star A"
| star_app: "u \<in> A \<Longrightarrow> v \<in> star A \<Longrightarrow> u @ v \<in> star A"

definition conc :: "jsstring set \<Rightarrow> jsstring set \<Rightarrow> jsstring set" where
  "conc A B = {u @ v | u v. u \<in> A \<and> v \<in> B}"

fun rx_lang :: "regex \<Rightarrow> jsstring set" where
  "rx_lang Zero = {}"
| "rx_lang Eps = {[]}"
| "rx_lang (Chr d) = {[d]}"
| "rx_lang (OneOf as) = {[c] | c. class_matches as c}"
| "rx_lang (NoneOf as) = {[c] | c. \<not> class_matches as c}"
| "rx_lang (Alt r s) = rx_lang r \<union> rx_lang s"
| "rx_lang (Seq r s) = conc (rx_lang r) (rx_lang s)"
| "rx_lang (Star r) = star (rx_lang r)"


section \<open>FormHelpers\<close>

text \<open>
  A form field as \<open>validateField\<close> and \<open>setFieldState\<close> see it: its \<open>value\<close>,
  \<open>type\<close> and \<open>required\<close> properties, its class list, and the text of the
  \<open>.form-error\<close> element of the closest \<open>.form-group\<close> (\<open>None\<close> when the field
  has no such group or the group has no such element).
\<close>

record field =
  field_value :: jsstring
  field_type :: string
  field_required :: bool
  classList :: "string set"
  errorElement :: "string option"

text \<open>\<open>/^[^\s@]+@[^\s@]+\.[^\s@]+$/\<close>, with \<open>@\<close> = 64 and \<open>.\<close> = 46.\<close>

definition emailRegex :: regex where
  "emailRegex =
     Seq (Plus (NoneOf [Space, Lit 64]))
      (Seq (Chr 64)
        (Seq (Plus (NoneOf [Space, Lit 64]))
          (Seq (Chr 46)
            (Plus (NoneOf [Space, Lit 64])))))"

text \<open>
  \<open>/^[\d\s\-\+\(\)]{10,}$/\<close>, with \<open>-\<close> = 45, \<open>+\<close> = 43, \<open>(\<close> = 40 and
  \<open>)\<close> = 41.
\<close>

definition phoneRegex :: regex where
  "phoneRegex = AtLeast 10 (OneOf [Digit, Space, Lit 45, Lit 43, Lit 40, Lit 41])"

definition setFieldState :: "field \<Rightarrow> bool \<Rightarrow> string \<Rightarrow> field" where
  "setFieldState f isValid errorMessage =
     (if isValid
      then f\<lparr>classList := insert ''is-valid'' (classList f - {''is-invalid''}),
              errorElement := map_option (\<lambda>_. '''') (errorElement f)\<rparr>
      else f\<lparr>classList := insert ''is-invalid'' (classList f - {''is-valid''}),
              errorElement := map_option (\<lambda>_. errorMessage) (errorElement f)\<rparr>)"

text \<open>
  The locals \<open>isValid\<close> and \<open>errorMessage\<close> of \<open>validateField\<close> at the point where
  it calls \<open>setFieldState\<close>: the three checks run in sequence, each overwriting both.
\<close>

definition validateField_locals :: "field \<Rightarrow> bool \<times> string" where
  "validateField_locals f =
     (let v = trim (field_value f);
          t = field_type f;
          st0 = (True, '''');
          st1 = (if field_required f \<and> v = [] then (False, ''This field is required'')
                 else st0);
          st2 = (if t = ''email'' \<and> v \<noteq> []
                 then (if \<not> regex_test emailRegex v
                       then (False, ''Please enter a valid email address'') else st1)
                 else st1);
          st3 = (if t = ''tel'' \<and> v \<noteq> []
                 then (if \<not> regex_test phoneRegex v
                       then (False, ''Please enter a valid phone number'') else st2)
                 else st2)
      in st3)"

text \<open>\<open>validateField\<close> returns \<open>isValid\<close>; the second component is the field afterwards.\<close>

definition validateField :: "field \<Rightarrow> bool \<times> field" where
  "validateField f =
     (let (isValid, errorMessage) = validateField_locals f
      in (isValid, setFieldState f isValid errorMessage))"

text \<open>
  The shapes the two patterns accept, in words: an address is a non-empty local part, one
  \<open>@\<close>, and a domain split by a dot into two non-empty parts, none of the three parts
  holding white space or \<open>@\<close>; a phone number is at least ten code units, each a digit, a
  white-space code unit or one of \<open>- + ( )\<close>.
\<close>

definition email_part :: "jsstring \<Rightarrow> bool" where
  "email_part w = (w \<noteq> [] \<and> list_all (\<lambda>c. \<not> isWhiteSpace c \<and> c \<noteq> 64) w)"

definition email_shape :: "jsstring \<Rightarrow> bool" where
  "email_shape v =
     (\<exists>l d t. v = l @ [64] @ d @ [46] @ t \<and> email_part l \<and> email_part d \<and> email_part t)"

definition phone_char :: "jschar \<Rightarrow> bool" where
  "phone_char c = (isDigit c \<or> isWhiteSpace c \<or> c = 45 \<or> c = 43 \<or> c = 40 \<or> c = 41)"

definition phone_shape :: "jsstring \<Rightarrow> bool" where
  "phone_shape v = (10 \<le> length v \<and> list_all phone_char v)"

text \<open>
  The phone shape as the specification words it: digits, spaces (U+0020), \<open>-\<close>, \<open>+\<close>,
  \<open>(\<close> and \<open>)\<close>.
\<close>

definition spec_phone_char :: "jschar \<Rightarrow> bool" where
  "spec_phone_char c = (isDigit c \<or> c = 32 \<or> c = 45 \<or> c = 43 \<or> c = 40 \<or> c = 41)"

definition spec_phone_shape :: "jsstring \<Rightarrow> bool" where
  "spec_phone_shape v = (10 \<le> length v \<and> list_all spec_phone_char v)"


section \<open>StickyHeader and BackToTop\<close>

text \<open>
  \<open>window.scrollY\<close> is a number of CSS pixels, fractional on some displays; it is a
  real here. The state of \<open>StickyHeader\<close> is the header's class list and inline
  transform together with the object's own \<open>lastScrollY\<close> and \<open>isHidden\<close>. The
  block of \<open>handleScroll\<close> that would hide the header is commented out in the source
  ("Uncomment if you want this behavior"), so it is no part of the function.
\<close>

record sticky_header =
  header_classes :: "string set"
  header_transform :: string
  lastScrollY :: real
  isHidden :: bool

definition StickyHeader_handleScroll :: "real \<Rightarrow> sticky_header \<Rightarrow> sticky_header" where
  "StickyHeader_handleScroll currentScrollY h =
     (if currentScrollY > 10
      then h\<lparr>header_classes := insert ''scrolled'' (header_classes h)\<rparr>
      else h\<lparr>header_classes := header_classes h - {''scrolled''}\<rparr>)"

text \<open>\<open>BackToTop.toggleVisibility\<close>, on the class list of the button.\<close>

definition BackToTop_toggleVisibility :: "real \<Rightarrow> string set \<Rightarrow> string set" where
  "BackToTop_toggleVisibility scrollY button_classes =
     (if scrollY > 500 then insert ''visible'' button_classes
      else button_classes - {''visible''})"

definition header_at_top :: sticky_header where
  "header_at_top =
     \<lparr>header_classes = {}, header_transform = '''', lastScrollY = 0, isHidden = False\<rparr>"


section \<open>MobileNav and DesktopNav\<close>

text \<open>
  The elements that can hold the focus: the menu toggle button, the focusable elements
  inside the mobile nav (by position), the trigger link of the \<open>i\<close>-th dropdown, the
  \<open>j\<close>-th link inside the \<open>i\<close>-th dropdown, and any other focusable element of
  the page.
\<close>

datatype element =
    MenuToggle
  | NavElement nat
  | TriggerLink nat
  | DropdownLink nat nat
  | Elsewhere nat

text \<open>
  One entry per \<open>.nav-item\<close> that has both a \<open>.nav-link.has-dropdown\<close> and a
  \<open>.nav-dropdown\<close>: the two attributes \<open>toggleDropdown\<close> writes (absent until
  written, unless the markup sets them) and the number of links inside the dropdown.
\<close>

record dropdown =
  aria_expanded :: "string option"
  aria_hidden :: "string option"
  link_count :: nat

text \<open>
  The page as the two navigation objects see it. \<open>activeElement\<close> is the element that
  has the focus, \<open>None\<close> when none has (\<open>document.activeElement\<close> is then the body
  or \<open>null\<close>). The body is no focusable area and \<open>focus()\<close> on it changes nothing,
  so a \<open>lastFocusedElement\<close> of \<open>None\<close> stands for \<open>null\<close> and for the body
  alike. \<open>nav_focusable\<close> is what the selector query of \<open>open\<close>
  (\<open>button, [href], input, select, textarea, [tabindex]:not([tabindex="-1"])\<close>) finds
  inside the nav, in document order; \<open>tabTraps\<close> holds the first and last element of
  that list captured by each key listener that \<open>trapFocus\<close> has registered.
  \<open>takes_focus\<close> tells which elements can take the focus: an element that is disabled,
  hidden or not rendered cannot, whether or not the selector matches it. The markup and the
  style sheet decide that; no operation of the model changes it.
\<close>

record page =
  isOpen :: bool
  nav_classes :: "string set"
  toggle_aria_expanded :: "string option"
  body_overflow :: string
  nav_focusable :: "element list"
  focusableElements :: "element list option"
  lastFocusedElement :: "element option"
  tabTraps :: "(element option \<times> element option) list"
  activeElement :: "element option"
  innerWidth :: nat
  dropdowns :: "dropdown list"
  takes_focus :: "element \<Rightarrow> bool"

text \<open>
  \<open>el.focus()\<close>: the element becomes the active element when it can take the focus;
  on any other element the call does nothing.
\<close>

definition focus :: "element \<Rightarrow> page \<Rightarrow> page" where
  "focus el p = (if takes_focus p el then p\<lparr>activeElement := Some el\<rparr> else p)"

text \<open>\<open>xs[i]\<close> on an array: \<open>undefined\<close> out of range.\<close>

definition at_index :: "'a list \<Rightarrow> nat \<Rightarrow> 'a option" where
  "at_index xs i = (if i < length xs then Some (xs ! i) else None)"

definition MobileNav_trapFocus :: "page \<Rightarrow> page" where
  "MobileNav_trapFocus p =
     (let fs = (case focusableElements p of Some xs \<Rightarrow> xs | None \<Rightarrow> []);
          firstFocusable = at_index fs 0;
          lastFocusable = (if fs = [] then None else at_index fs (length fs - 1))
      in p\<lparr>tabTraps := tabTraps p @ [(firstFocusable, lastFocusable)]\<rparr>)"

definition MobileNav_open :: "page \<Rightarrow> page" where
  "MobileNav_open p =
     (let p1 = p\<lparr>isOpen := True, lastFocusedElement := activeElement p\<rparr>;
          p2 = p1\<lparr>nav_classes := insert ''open'' (nav_classes p1),
                   toggle_aria_expanded := Some ''true'',
                   body_overflow := ''hidden''\<rparr>;
          p3 = p2\<lparr>focusableElements := Some (nav_focusable p2)\<rparr>;
          p4 = (case nav_focusable p3 of [] \<Rightarrow> p3 | el # _ \<Rightarrow> focus el p3)
      in MobileNav_trapFocus p4)"

definition MobileNav_close :: "page \<Rightarrow> page" where
  "MobileNav_close p =
     (let p1 = p\<lparr>isOpen := False\<rparr>;
          p2 = p1\<lparr>nav_classes := nav_classes p1 - {''open''},
                   toggle_aria_expanded := Some ''false'',
                   body_overflow := ''''\<rparr>
      in (case lastFocusedElement p2 of None \<Rightarrow> p2 | Some el \<Rightarrow> focus el p2))"

definition MobileNav_toggle :: "page \<Rightarrow> page" where
  "MobileNav_toggle p = (if isOpen p then MobileNav_close p else MobileNav_open p)"

text \<open>The listeners that \<open>MobileNav.init\<close> registers besides the two button clicks.\<close>

definition MobileNav_onEscape :: "string \<Rightarrow> page \<Rightarrow> page" where
  "MobileNav_onEscape key p = (if key = ''Escape'' \<and> isOpen p then MobileNav_close p else p)"

definition MobileNav_onResize :: "page \<Rightarrow> page" where
  "MobileNav_onResize p = (if isOpen p \<and> innerWidth p \<ge> 1024 then MobileNav_close p else p)"

text \<open>\<open>handleTabKey\<close> of one registered trap.\<close>

definition handleTabKey ::
  "element option \<times> element option \<Rightarrow> string \<Rightarrow> bool \<Rightarrow> page \<Rightarrow> page" where
  "handleTabKey trap key shiftKey p =
     (if \<not> isOpen p \<or> key \<noteq> ''Tab'' then p
      else (case trap of
              (Some firstFocusable, Some lastFocusable) \<Rightarrow>
                (if shiftKey
                 then (if activeElement p = Some firstFocusable then focus lastFocusable p else p)
                 else (if activeElement p = Some lastFocusable then focus firstFocusable p else p))
            | _ \<Rightarrow> p))"

text \<open>
  \<open>setAttribute\<close> with a boolean argument stores its string form.
\<close>

definition js_bool :: "bool \<Rightarrow> string" where
  "js_bool b = (if b then ''true'' else ''false'')"

definition DesktopNav_toggleDropdown :: "nat \<Rightarrow> bool \<Rightarrow> page \<Rightarrow> page" where
  "DesktopNav_toggleDropdown i isOpen' p =
     (if i < length (dropdowns p)
      then p\<lparr>dropdowns := (dropdowns p)
              [i := (dropdowns p ! i)\<lparr>aria_expanded := Some (js_bool isOpen'),
                                     aria_hidden := Some (js_bool (\<not> isOpen'))\<rparr>]\<rparr>
      else p)"

text \<open>The key listener on the trigger link of dropdown \<open>i\<close>.\<close>

definition DesktopNav_linkKeydown :: "nat \<Rightarrow> string \<Rightarrow> page \<Rightarrow> page" where
  "DesktopNav_linkKeydown i key p =
     (if i < length (dropdowns p)
      then
        (let p1 = (if key = ''Enter'' \<or> key = '' ''
                   then (let isExpanded = (aria_expanded (dropdowns p ! i) = Some ''true'')
                         in DesktopNav_toggleDropdown i (\<not> isExpanded) p)
                   else p);
             p2 = (if key = ''ArrowDown''
                   then (let q = DesktopNav_toggleDropdown i True p1
                         in if link_count (dropdowns q ! i) > 0 then focus (DropdownLink i 0) q
                            else q)
                   else p1)
         in p2)
      else p)"

text \<open>
  \<open>Array.from(links).indexOf(document.activeElement)\<close> for the links of dropdown \<open>i\<close>.
\<close>

definition currentIndex :: "nat \<Rightarrow> page \<Rightarrow> int" where
  "currentIndex i p =
     (case activeElement p of
        Some (DropdownLink i' j) \<Rightarrow>
          (if i' = i \<and> j < link_count (dropdowns p ! i) then int j else - 1)
      | _ \<Rightarrow> - 1)"

text \<open>The key listener on dropdown \<open>i\<close> itself.\<close>

definition DesktopNav_dropdownKeydown :: "nat \<Rightarrow> string \<Rightarrow> page \<Rightarrow> page" where
  "DesktopNav_dropdownKeydown i key p =
     (if i < length (dropdowns p)
      then
        (let n = int (link_count (dropdowns p ! i));
             k = currentIndex i p;
             p1 = (if key = ''ArrowDown'' \<and> k < n - 1
                   then focus (DropdownLink i (nat (k + 1))) p else p);
             p2 = (if key = ''ArrowUp''
                   then (if k > 0 then focus (DropdownLink i (nat (k - 1))) p1
                         else DesktopNav_toggleDropdown i False (focus (TriggerLink i) p1))
                   else p1);
             p3 = (if key = ''Escape''
                   then DesktopNav_toggleDropdown i False (focus (TriggerLink i) p2)
                   else p2)
         in p3)
      else p)"

text \<open>
  The operations on the two navigations, each a call of one of the functions above, and the
  menu each is invoked on.
\<close>

datatype nav_op =
    Toggle
  | Open
  | Close
  | EscapeKey
  | Resize
  | TabKey nat bool
  | LinkKeydown nat string
  | DropdownKeydown nat string

datatype menu = MobileMenu | Dropdown nat

fun run_op :: "nav_op \<Rightarrow> page \<Rightarrow> page" where
  "run_op Toggle p = MobileNav_toggle p"
| "run_op Open p = MobileNav_open p"
| "run_op Close p = MobileNav_close p"
| "run_op EscapeKey p = MobileNav_onEscape ''Escape'' p"
| "run_op Resize p = MobileNav_onResize p"
| "run_op (TabKey n shiftKey) p =
     (case at_index (tabTraps p) n of None \<Rightarrow> p
      | Some trap \<Rightarrow> handleTabKey trap ''Tab'' shiftKey p)"
| "run_op (LinkKeydown i key) p = DesktopNav_linkKeydown i key p"
| "run_op (DropdownKeydown i key) p = DesktopNav_dropdownKeydown i key p"

fun run_ops :: "nav_op list \<Rightarrow> page \<Rightarrow> page" where
  "run_ops [] p = p"
| "run_ops (a # as) p = run_ops as (run_op a p)"

fun op_menu :: "nav_op \<Rightarrow> menu" where
  "op_menu (LinkKeydown i key) = Dropdown i"
| "op_menu (DropdownKeydown i key) = Dropdown i"
| "op_menu a = MobileMenu"

text \<open>
  A menu's open state: the \<open>open\<close> class of the mobile nav, \<open>aria-expanded="true"\<close>
  on a dropdown's trigger.
\<close>

fun menu_open :: "page \<Rightarrow> menu \<Rightarrow> bool" where
  "menu_open p MobileMenu = (''open'' \<in> nav_classes p)"
| "menu_open p (Dropdown i) =
     (i < length (dropdowns p) \<and> aria_expanded (dropdowns p ! i) = Some ''true'')"

definition closed_dropdown :: dropdown where
  "closed_dropdown = \<lparr>aria_expanded = Some ''false'', aria_hidden = Some ''true'', link_count = 3\<rparr>"

text \<open>A freshly loaded page with a mobile nav and two dropdowns, everything closed.\<close>

definition fresh_page :: page where
  "fresh_page =
     \<lparr>isOpen = False, nav_classes = {}, toggle_aria_expanded = Some ''false'',
      body_overflow = '''', nav_focusable = [NavElement 0, NavElement 1],
      focusableElements = None, lastFocusedElement = None, tabTraps = [],
      activeElement = Some MenuToggle, innerWidth = 1280,
      dropdowns = [closed_dropdown, closed_dropdown], takes_focus = (\<lambda>el. True)\<rparr>"

text \<open>
  The same page where the first element the selector finds in the nav is a disabled button,
  which cannot take the focus, and the second an ordinary link, which can.
\<close>

definition disabled_first_page :: page where
  "disabled_first_page = fresh_page\<lparr>takes_focus := (\<lambda>el. el \<noteq> NavElement 0)\<rparr>"


section \<open>LanguageSwitcher\<close>

subsection \<open>Configuration\<close>

record lang_config =
  code :: string
  name :: string
  nativeName :: string
  dir :: string
  enabled :: bool
  path :: string

definition en_config :: lang_config where
  "en_config = \<lparr>code = ''en'', name = ''English'', nativeName = ''English'', dir = ''ltr'',
                 enabled = True, path = ''/en/''\<rparr>"

definition ht_config :: lang_config where
  "ht_config = \<lparr>code = ''ht'', name = ''Haitian Creole'',
                 nativeName = ''Krey'' @ [char_of (242 :: nat)] @ ''l Ayisyen'', dir = ''ltr'',
                 enabled = False, path = ''/ht/''\<rparr>"

definition fr_config :: lang_config where
  "fr_config = \<lparr>code = ''fr'', name = ''French'',
                 nativeName = ''Fran'' @ [char_of (231 :: nat)] @ ''ais'', dir = ''ltr'',
                 enabled = False, path = ''/fr/''\<rparr>"

definition defaultLanguage :: string where
  "defaultLanguage = ''en''"

definition storageKey :: string where
  "storageKey = ''delmar-preferred-language''"

text \<open>
  \<open>this.config.languages\<close> is an object literal, so \<open>this.config.languages[key]\<close>
  finds the three own properties and, for any other key, what the object inherits from
  \<open>Object.prototype\<close>: a function for \<open>constructor\<close>, \<open>toString\<close> and the like, the
  prototype object itself for \<open>__proto__\<close>, and \<open>undefined\<close> for every other key. The
  table lists the inherited keys with the \<open>name\<close> property of the value found
  (\<open>None\<close> where it has none).
\<close>

datatype jsvalue = Undefined | Config lang_config | Inherited "string option"

definition object_prototype :: "(string \<times> string option) list" where
  "object_prototype =
     [(''constructor'', Some ''Object''),
      (''hasOwnProperty'', Some ''hasOwnProperty''),
      (''isPrototypeOf'', Some ''isPrototypeOf''),
      (''propertyIsEnumerable'', Some ''propertyIsEnumerable''),
      (''toLocaleString'', Some ''toLocaleString''),
      (''toString'', Some ''toString''),
      (''valueOf'', Some ''valueOf''),
      (''__defineGetter__'', Some ''__defineGetter__''),
      (''__defineSetter__'', Some ''__defineSetter__''),
      (''__lookupGetter__'', Some ''__lookupGetter__''),
      (''__lookupSetter__'', Some ''__lookupSetter__''),
      (''__proto__'', None)]"

definition languages :: "string \<Rightarrow> jsvalue" where
  "languages key =
     (if key = ''en'' then Config en_config
      else if key = ''ht'' then Config ht_config
      else if key = ''fr'' then Config fr_config
      else (case map_of object_prototype key of
              Some n \<Rightarrow> Inherited n
            | None \<Rightarrow> Undefined))"

text \<open>Truthiness of a looked-up value, and of its \<open>enabled\<close> property.\<close>

fun truthy :: "jsvalue \<Rightarrow> bool" where
  "truthy Undefined = False"
| "truthy (Config c) = True"
| "truthy (Inherited n) = True"

fun enabled_of :: "jsvalue \<Rightarrow> bool" where
  "enabled_of (Config c) = enabled c"
| "enabled_of v = False"

text \<open>
  The string a property of a defined value yields where the scripts use it as one (in a
  template, a concatenation or an attribute): a missing property reads \<open>undefined\<close>.
\<close>

fun str_name :: "jsvalue \<Rightarrow> string" where
  "str_name (Config c) = name c"
| "str_name (Inherited (Some n)) = n"
| "str_name v = ''undefined''"

fun str_nativeName :: "jsvalue \<Rightarrow> string" where
  "str_nativeName (Config c) = nativeName c"
| "str_nativeName v = ''undefined''"

fun str_code :: "jsvalue \<Rightarrow> string" where
  "str_code (Config c) = code c"
| "str_code v = ''undefined''"

fun str_dir :: "jsvalue \<Rightarrow> string" where
  "str_dir (Config c) = dir c"
| "str_dir v = ''undefined''"

fun str_path :: "jsvalue \<Rightarrow> string" where
  "str_path (Config c) = path c"
| "str_path v = ''undefined''"

subsection \<open>Browser state\<close>

text \<open>
  \<open>localStorage\<close>: its items, and whether reading or writing raises (storage disabled,
  quota exceeded). \<open>written\<close> is the history of the writes that went through, kept to
  state what a method writes; no script reads it.
\<close>

datatype jserror = StorageError | TypeError

record storage =
  items :: "string \<rightharpoonup> string"
  getItem_throws :: bool
  setItem_throws :: bool
  written :: "(string \<times> string) list"

definition getItem :: "storage \<Rightarrow> string \<Rightarrow> jserror + string option" where
  "getItem st key = (if getItem_throws st then Inl StorageError else Inr (items st key))"

definition setItem :: "storage \<Rightarrow> string \<Rightarrow> string \<Rightarrow> jserror + storage" where
  "setItem st key v =
     (if setItem_throws st then Inl StorageError
      else Inr (st\<lparr>items := (items st)(key \<mapsto> v), written := written st @ [(key, v)]\<rparr>))"

record navigator =
  nav_languages :: "string list option"
  nav_language :: "string option"
  nav_userLanguage :: "string option"

datatype console_entry = Warn string | Log string

text \<open>A \<open>.lang-btn\<close> button: its \<open>data-lang\<close>, what \<open>setupButtons\<close> writes, and the
  language codes of the click listeners registered on it.\<close>

record lang_button =
  data_lang :: "string option"
  button_classes :: "string set"
  aria_current :: "string option"
  aria_disabled :: "string option"
  title :: "string option"
  click_listeners :: "string list"

text \<open>
  \<open>location_href\<close> is the value the script has assigned to \<open>window.location.href\<close>,
  if any; \<open>toasts\<close> are the headings of the toasts appended to the body (their later
  removal by timers is outside the model).
\<close>

record ls_state =
  currentLanguage :: string
  pathname :: string
  location_href :: "string option"
  localStorage :: storage
  navigator :: navigator
  buttons :: "lang_button list"
  document_lang :: string
  document_dir :: string
  toasts :: "string list"
  toast_styles :: bool
  console :: "console_entry list"

text \<open>How a method ends: it returns, or an exception leaves it, in the state reached.\<close>

datatype 'a outcome = Returned 'a | Threw jserror 'a

subsection \<open>String helpers\<close>

text \<open>
  Strings here are sequences of 8-bit code units. \<open>toLowerCase\<close> on those: the ASCII
  capitals and the Latin-1 capitals (U+00C0 to U+00DE but U+00D7) move up by 32.
\<close>

definition toLowerCase_char :: "char \<Rightarrow> char" where
  "toLowerCase_char c =
     (let n = (of_char c :: nat)
      in if (65 \<le> n \<and> n \<le> 90) \<or> (192 \<le> n \<and> n \<le> 214) \<or> (216 \<le> n \<and> n \<le> 222)
         then char_of (n + 32) else c)"

definition toLowerCase :: "string \<Rightarrow> string" where
  "toLowerCase s = map toLowerCase_char s"

fun str_includes :: "string \<Rightarrow> string \<Rightarrow> bool" where
  "str_includes [] sub = (sub = [])"
| "str_includes (c # cs) sub = (prefix sub (c # cs) \<or> str_includes cs sub)"

text \<open>\<open>lang.split('-')[0]\<close>: what stands before the first hyphen.\<close>

definition split_first :: "string \<Rightarrow> string" where
  "split_first lang = takeWhile (\<lambda>c. c \<noteq> CHR ''-'') lang"

text \<open>\<open>/^\/(en|ht|fr)\//\<close> on the path: the group, or \<open>None\<close> for no match.\<close>

definition pathMatch :: "string \<Rightarrow> string option" where
  "pathMatch p =
     (if prefix ''/en/'' p then Some ''en''
      else if prefix ''/ht/'' p then Some ''ht''
      else if prefix ''/fr/'' p then Some ''fr''
      else None)"

text \<open>
  \<open>/^\/(en|ht|fr)(\/.*)?$/\<close> on the path: \<open>None\<close> for no match, else the second
  group (\<open>None\<close> when it took no part). The dot matches no line terminator.
\<close>

definition currentLangMatch :: "string \<Rightarrow> string option option" where
  "currentLangMatch p =
     (if prefix ''/en'' p \<or> prefix ''/ht'' p \<or> prefix ''/fr'' p
      then (case drop 3 p of
              [] \<Rightarrow> Some None
            | c # cs \<Rightarrow>
                (if c = CHR ''/'' \<and> list_all (\<lambda>d. d \<noteq> CHR 0x0A \<and> d \<noteq> CHR 0x0D) cs
                 then Some (Some (c # cs)) else None))
      else None)"

subsection \<open>Methods\<close>

text \<open>
  \<open>navigator.languages || [navigator.language || navigator.userLanguage]\<close>: an array is
  truthy even when empty, the empty string is falsy; an entry is \<open>None\<close> where it is
  \<open>undefined\<close>.
\<close>

definition browserLangs :: "navigator \<Rightarrow> string option list" where
  "browserLangs n =
     (case nav_languages n of
        Some ls \<Rightarrow> map Some ls
      | None \<Rightarrow>
          [case nav_language n of
             Some l \<Rightarrow> (if l \<noteq> [] then Some l else nav_userLanguage n)
           | None \<Rightarrow> nav_userLanguage n])"

fun detectBrowserLanguage_loop :: "string option list \<Rightarrow> jserror + string" where
  "detectBrowserLanguage_loop [] = Inr defaultLanguage"
| "detectBrowserLanguage_loop (None # rest) = Inl TypeError"
| "detectBrowserLanguage_loop (Some lang # rest) =
     (let primaryLang = toLowerCase (split_first lang)
      in if (str_includes (toLowerCase lang) ''ht'' \<or> str_includes (toLowerCase lang) ''haitian'')
            \<and> enabled ht_config
         then Inr ''ht''
         else if enabled_of (languages primaryLang) then Inr primaryLang
         else detectBrowserLanguage_loop rest)"

definition detectBrowserLanguage :: "ls_state \<Rightarrow> jserror + string" where
  "detectBrowserLanguage s = detectBrowserLanguage_loop (browserLangs (navigator s))"

text \<open>The read of \<open>localStorage\<close> in \<open>detectCurrentLanguage\<close> stands in no \<open>try\<close>.\<close>

definition detectCurrentLanguage :: "ls_state \<Rightarrow> jserror + string" where
  "detectCurrentLanguage s =
     (let from_storage =
            (case getItem (localStorage s) storageKey of
               Inl e \<Rightarrow> Inl e
             | Inr None \<Rightarrow> detectBrowserLanguage s
             | Inr (Some stored) \<Rightarrow>
                 (if stored \<noteq> [] \<and> truthy (languages stored) then Inr stored
                  else detectBrowserLanguage s))
      in (case pathMatch (pathname s) of
            None \<Rightarrow> from_storage
          | Some l \<Rightarrow> (if truthy (languages l) then Inr l else from_storage)))"

definition storePreference :: "string \<Rightarrow> ls_state \<Rightarrow> ls_state" where
  "storePreference langCode s =
     (case setItem (localStorage s) storageKey langCode of
        Inr st \<Rightarrow> s\<lparr>localStorage := st\<rparr>
      | Inl e \<Rightarrow> s\<lparr>console := console s @ [Warn ''Could not store language preference:'']\<rparr>)"

definition getStoredPreference :: "ls_state \<Rightarrow> string option \<times> ls_state" where
  "getStoredPreference s =
     (case getItem (localStorage s) storageKey of
        Inr v \<Rightarrow> (v, s)
      | Inl e \<Rightarrow>
          (None, s\<lparr>console := console s @ [Warn ''Could not retrieve language preference:'']\<rparr>))"

definition setupButton :: "string \<Rightarrow> lang_button \<Rightarrow> lang_button" where
  "setupButton current b =
     (case data_lang b of
        None \<Rightarrow> b
      | Some langCode \<Rightarrow>
          (if langCode = [] then b
           else
             (let langConfig = languages langCode;
                  b1 = (if truthy langConfig
                        then
                          (let b2 = (if langCode = current
                                     then b\<lparr>button_classes := insert ''active'' (button_classes b),
                                            aria_current := Some ''true''\<rparr>
                                     else b\<lparr>button_classes := button_classes b - {''active''},
                                            aria_current := None\<rparr>)
                           in if \<not> enabled_of langConfig
                              then b2\<lparr>button_classes := insert ''disabled'' (button_classes b2),
                                      aria_disabled := Some ''true'',
                                      title := Some (str_name langConfig @ '' - Coming Soon'')\<rparr>
                              else b2\<lparr>button_classes := button_classes b2 - {''disabled''},
                                      aria_disabled := None,
                                      title := Some (str_nativeName langConfig)\<rparr>)
                        else b)
              in b1\<lparr>click_listeners := click_listeners b1 @ [langCode]\<rparr>)))"

definition setupButtons :: "ls_state \<Rightarrow> ls_state" where
  "setupButtons s = s\<lparr>buttons := map (setupButton (currentLanguage s)) (buttons s)\<rparr>"

definition updateDocumentLanguage :: "ls_state \<Rightarrow> ls_state" where
  "updateDocumentLanguage s =
     (let langConfig = languages (currentLanguage s)
      in if truthy langConfig
         then s\<lparr>document_lang := str_code langConfig, document_dir := str_dir langConfig\<rparr>
         else s)"

definition showComingSoonMessage :: "jsvalue \<Rightarrow> ls_state \<Rightarrow> ls_state" where
  "showComingSoonMessage langConfig s =
     s\<lparr>toasts := toasts s @ [str_nativeName langConfig], toast_styles := True\<rparr>"

text \<open>
  \<open>switchLanguage\<close> stores the preference first; reading \<open>langConfig.path\<close> then raises
  a TypeError when the code has no entry at all.
\<close>

definition switchLanguage :: "string \<Rightarrow> ls_state \<Rightarrow> ls_state outcome" where
  "switchLanguage langCode s =
     (let langConfig = languages langCode;
          s1 = storePreference langCode s
      in if langConfig = Undefined then Threw TypeError s1
         else
           (let newPath =
                  (case currentLangMatch (pathname s1) of
                     Some g \<Rightarrow>
                       (let pagePath = (case g of Some t \<Rightarrow> t | None \<Rightarrow> ''/'')
                        in str_path langConfig @ drop 1 pagePath)
                   | None \<Rightarrow> str_path langConfig)
            in Returned (s1\<lparr>location_href := Some newPath\<rparr>)))"

definition handleLanguageChange :: "string \<Rightarrow> ls_state \<Rightarrow> ls_state outcome" where
  "handleLanguageChange langCode s =
     (let langConfig = languages langCode
      in if \<not> truthy langConfig
         then Returned (s\<lparr>console := console s @
                 [Warn (''Language '' @ [CHR 0x22] @ langCode @ [CHR 0x22] @ '' not found'')]\<rparr>)
         else if \<not> enabled_of langConfig
         then Returned (showComingSoonMessage langConfig s)
         else if langCode = currentLanguage s
         then Returned s
         else switchLanguage langCode s)"

definition init :: "ls_state \<Rightarrow> ls_state outcome" where
  "init s =
     (case detectCurrentLanguage s of
        Inl e \<Rightarrow> Threw e s
      | Inr l \<Rightarrow>
          (let s1 = s\<lparr>currentLanguage := l\<rparr>;
               s2 = setupButtons s1;
               s3 = storePreference (currentLanguage s2) s2;
               s4 = updateDocumentLanguage s3
           in Returned (s4\<lparr>console := console s4 @
                [Log (''Language Switcher initialized. Current language: '' @
                      currentLanguage s4)]\<rparr>)))"

definition isLanguageEnabled :: "string \<Rightarrow> bool" where
  "isLanguageEnabled langCode = enabled_of (languages langCode)"

text \<open>The codes the specification calls known.\<close>

definition known_language :: "string \<Rightarrow> bool" where
  "known_language c = (c = ''en'' \<or> c = ''ht'' \<or> c = ''fr'')"

text \<open>What a state holds under the storage key.\<close>

definition stored_preference :: "ls_state \<Rightarrow> string option" where
  "stored_preference s = items (localStorage s) storageKey"

text \<open>
  A first visit to \<open>/index.html\<close> with an English browser, working storage, nothing
  stored, and one button per language.
\<close>

definition fresh_button :: "string \<Rightarrow> lang_button" where
  "fresh_button l =
     \<lparr>data_lang = Some l, button_classes = {''lang-btn''}, aria_current = None,
      aria_disabled = None, title = None, click_listeners = []\<rparr>"

definition first_visit :: ls_state where
  "first_visit =
     \<lparr>currentLanguage = ''en'', pathname = ''/index.html'', location_href = None,
      localStorage = \<lparr>items = Map.empty, getItem_throws = False, setItem_throws = False,
                      written = []\<rparr>,
      navigator = \<lparr>nav_languages = Some [''en-US'', ''en''], nav_language = Some ''en-US'',
                   nav_userLanguage = None\<rparr>,
      buttons = [fresh_button ''en'', fresh_button ''ht'', fresh_button ''fr''],
      document_lang = ''en'', document_dir = ''ltr'',
      toasts = [], toast_styles = False, console = []\<rparr>"

text \<open>The same visit with a storage that raises on every access.\<close>

definition blocked_visit :: ls_state where
  "blocked_visit =
     first_visit\<lparr>localStorage :=
       \<lparr>items = Map.empty, getItem_throws = True, setItem_throws = True, written = []\<rparr>\<rparr>"

text \<open>
  The same visit where the storage key already holds \<open>constructor\<close>, a string that no
  call of the module put there.
\<close>

definition foreign_visit :: ls_state where
  "foreign_visit =
     first_visit\<lparr>localStorage :=
       \<lparr>items = [storageKey \<mapsto> ''constructor''], getItem_throws = False,
        setItem_throws = False, written = []\<rparr>\<rparr>"


section \<open>Example fields\<close>

text \<open>A phone field holding \<open>12345\<close>, a tab, \<open>67890\<close>.\<close>

definition phone_with_tab :: field where
  "phone_with_tab =
     \<lparr>field_value = js ''12345'' @ [9] @ js ''67890'', field_type = ''tel'',
      field_required = False, classList = {}, errorElement = Some ''''\<rparr>"

definition short_phone :: field where
  "short_phone =
     \<lparr>field_value = js ''555-0142'', field_type = ''tel'',
      field_required = True, classList = {}, errorElement = Some ''''\<rparr>"

definition email_without_dot :: field where
  "email_without_dot =
     \<lparr>field_value = js '' pastor@delmarnaz '', field_type = ''email'',
      field_required = True, classList = {''is-valid''}, errorElement = Some ''''\<rparr>"


section \<open>The matcher decides the language\<close>

lemma star_Cons:
  "(c # w \<in> star A) = (\<exists>u v. w = u @ v \<and> c # u \<in> A \<and> v \<in> star A)"
proof
  assume "c # w \<in> star A"
  then show "\<exists>u v. w = u @ v \<and> c # u \<in> A \<and> v \<in> star A"
  proof (induction "c # w" arbitrary: w rule: star.induct)
    case (star_app u v)
    show ?case
    proof (cases u)
      case Nil
      with star_app show ?thesis by simp
    next
      case (Cons a u')
      with star_app show ?thesis by auto
    qed
  qed
next
  assume "\<exists>u v. w = u @ v \<and> c # u \<in> A \<and> v \<in> star A"
  then obtain u v where "w = u @ v" "c # u \<in> A" "v \<in> star A" by blast
  then show "c # w \<in> star A"
    using star.star_app [of "c # u" A v] by simp
qed

lemma conc_mem: "(w \<in> conc A B) = (\<exists>u v. w = u @ v \<and> u \<in> A \<and> v \<in> B)"
  by (auto simp: conc_def)

lemma conc_Nil: "([] \<in> conc A B) = ([] \<in> A \<and> [] \<in> B)"
  by (auto simp: conc_def)

lemma conc_Cons:
  "(c # w \<in> conc A B) =
     ((\<exists>u v. w = u @ v \<and> c # u \<in> A \<and> v \<in> B) \<or> ([] \<in> A \<and> c # w \<in> B))"
  by (auto simp: conc_def Cons_eq_append_conv)

lemma nullable_rx_lang: "nullable r = ([] \<in> rx_lang r)"
  by (induction r) (auto simp: conc_Nil star.star_nil)

lemma deriv_rx_lang: "(w \<in> rx_lang (deriv c r)) = (c # w \<in> rx_lang r)"
proof (induction r arbitrary: w)
  case (Seq r s)
  have "(w \<in> rx_lang (deriv c (Seq r s))) =
        ((\<exists>u v. w = u @ v \<and> c # u \<in> rx_lang r \<and> v \<in> rx_lang s)
          \<or> ([] \<in> rx_lang r \<and> c # w \<in> rx_lang s))"
    using Seq by (auto simp: conc_mem nullable_rx_lang)
  also have "\<dots> = (c # w \<in> rx_lang (Seq r s))"
    by (simp add: conc_Cons)
  finally show ?case .
next
  case (Star r)
  have "(w \<in> rx_lang (deriv c (Star r))) =
        (\<exists>u v. w = u @ v \<and> c # u \<in> rx_lang r \<and> v \<in> star (rx_lang r))"
    using Star by (simp add: conc_mem)
  also have "\<dots> = (c # w \<in> rx_lang (Star r))"
    by (simp add: star_Cons)
  finally show ?case .
qed auto

lemma regex_test_rx_lang: "regex_test r w = (w \<in> rx_lang r)"
  by (induction w arbitrary: r) (simp_all add: nullable_rx_lang deriv_rx_lang)

lemma star_singletons: "(w \<in> star {[c] | c. P c}) = list_all P w"
proof
  assume "w \<in> star {[c] | c. P c}"
  then show "list_all P w"
    by (induction rule: star.induct) auto
next
  assume "list_all P w"
  then show "w \<in> star {[c] | c. P c}"
  proof (induction w)
    case Nil
    show ?case by (rule star.star_nil)
  next
    case (Cons a w)
    then have "[a] \<in> {[c] | c. P c}" and "w \<in> star {[c] | c. P c}" by auto
    then have "[a] @ w \<in> star {[c] | c. P c}" by (rule star.star_app)
    then show ?case by simp
  qed
qed

lemma conc_singletons:
  "(w \<in> conc {[c] | c. P c} B) = (case w of [] \<Rightarrow> False | c # v \<Rightarrow> P c \<and> v \<in> B)"
proof (cases w)
  case Nil
  then show ?thesis by (simp add: conc_def)
next
  case (Cons a v)
  have "(a # v \<in> conc {[c] | c. P c} B) = (P a \<and> v \<in> B)"
  proof
    assume "a # v \<in> conc {[c] | c. P c} B"
    then show "P a \<and> v \<in> B" by (auto simp: conc_def)
  next
    assume "P a \<and> v \<in> B"
    then have "[a] \<in> {[c] | c. P c}" and "v \<in> B" by auto
    then have "[a] @ v \<in> conc {[c] | c. P c} B" unfolding conc_def by blast
    then show "a # v \<in> conc {[c] | c. P c} B" by simp
  qed
  with Cons show ?thesis by simp
qed

lemma conc_one: "(w \<in> conc {[d]} B) = (\<exists>v. w = d # v \<and> v \<in> B)"
  by (auto simp: conc_def)

lemma rx_lang_Plus_NoneOf:
  "(w \<in> rx_lang (Plus (NoneOf as))) =
     (w \<noteq> [] \<and> list_all (\<lambda>c. \<not> class_matches as c) w)"
  by (cases w) (simp_all add: Plus_def conc_singletons star_singletons)

lemma rx_lang_AtLeast_OneOf:
  "(w \<in> rx_lang (AtLeast n (OneOf as))) = (n \<le> length w \<and> list_all (class_matches as) w)"
proof (induction n arbitrary: w)
  case 0
  show ?case by (simp add: star_singletons)
next
  case (Suc n)
  show ?case by (cases w) (auto simp: conc_singletons Suc)
qed

lemma email_class: "(\<not> class_matches [Space, Lit 64] c) = (\<not> isWhiteSpace c \<and> c \<noteq> 64)"
  by (simp add: class_matches_def)

lemma phone_class: "class_matches [Digit, Space, Lit 45, Lit 43, Lit 40, Lit 41] = phone_char"
  by (rule ext) (auto simp: class_matches_def phone_char_def)

lemma phoneRegex_shape: "regex_test phoneRegex v = phone_shape v"
  unfolding regex_test_rx_lang phoneRegex_def phone_shape_def
  by (simp add: rx_lang_AtLeast_OneOf phone_class)

lemma emailRegex_rx_lang:
  "(v \<in> rx_lang emailRegex) =
     (\<exists>l r. v = l @ r \<and> email_part l \<and>
        (\<exists>r1. r = 64 # r1 \<and> (\<exists>d r2. r1 = d @ r2 \<and> email_part d \<and>
           (\<exists>t. r2 = 46 # t \<and> email_part t))))"
  unfolding emailRegex_def email_part_def
  by (simp add: conc_mem [where A = "rx_lang (Plus x)" for x] conc_one rx_lang_Plus_NoneOf
        email_class)

lemma emailRegex_shape: "regex_test emailRegex v = email_shape v"
proof
  assume "regex_test emailRegex v"
  then show "email_shape v"
    unfolding regex_test_rx_lang emailRegex_rx_lang email_shape_def by auto
next
  assume "email_shape v"
  then obtain l d t where v: "v = l @ [64] @ d @ [46] @ t"
    and parts: "email_part l" "email_part d" "email_part t"
    unfolding email_shape_def by blast
  have "v = l @ (64 # d @ 46 # t)" using v by simp
  moreover have "\<exists>r1. 64 # d @ 46 # t = 64 # r1 \<and> (\<exists>d' r2. r1 = d' @ r2 \<and> email_part d' \<and>
           (\<exists>t'. r2 = 46 # t' \<and> email_part t'))"
    using parts by blast
  ultimately show "regex_test emailRegex v"
    unfolding regex_test_rx_lang emailRegex_rx_lang using parts(1) by blast
qed

lemma AtLeast_10:
  "AtLeast 10 r =
     Seq r (Seq r (Seq r (Seq r (Seq r (Seq r (Seq r (Seq r (Seq r (Seq r (Star r))))))))))"
  by (simp add: eval_nat_numeral)


section \<open>FormHelpers.validateField\<close>

lemma validateField_valid: "fst (validateField f) = fst (validateField_locals f)"
  by (simp add: validateField_def split: prod.splits)

lemma validateField_classes:
  "(''is-valid'' \<in> classList (snd (validateField f))) = fst (validateField_locals f)"
  "(''is-invalid'' \<in> classList (snd (validateField f))) = (\<not> fst (validateField_locals f))"
  by (simp_all add: validateField_def setFieldState_def split: prod.splits)

lemma validateField_error:
  "errorElement (snd (validateField f)) =
     map_option (\<lambda>_. if fst (validateField_locals f) then '''' else snd (validateField_locals f))
       (errorElement f)"
  by (simp add: validateField_def setFieldState_def split: prod.splits)

lemma locals_email:
  "field_type f = ''email'' \<Longrightarrow> trim (field_value f) \<noteq> [] \<Longrightarrow>
   validateField_locals f =
     (if regex_test emailRegex (trim (field_value f)) then (True, '''')
      else (False, ''Please enter a valid email address''))"
  by (simp add: validateField_locals_def Let_def)

lemma locals_tel:
  "field_type f = ''tel'' \<Longrightarrow> trim (field_value f) \<noteq> [] \<Longrightarrow>
   validateField_locals f =
     (if regex_test phoneRegex (trim (field_value f)) then (True, '''')
      else (False, ''Please enter a valid phone number''))"
  by (simp add: validateField_locals_def Let_def)

text \<open>
  Claim C1, as the code has it. For a field of type \<open>email\<close> whose trimmed value is not
  empty, \<open>validateField\<close> returns true, and marks the field \<open>is-valid\<close> rather than
  \<open>is-invalid\<close>, exactly when the trimmed value matches the e-mail pattern, that is when
  it is a local part, one \<open>@\<close> and a domain with an inner dot, no part holding white
  space or \<open>@\<close>. For a field of type \<open>tel\<close> whose trimmed value is not empty it does so
  exactly when the trimmed value has at least ten code units, each a digit, a white-space
  code unit (anything \<open>\s\<close> matches, not the space alone) or one of \<open>- + ( )\<close>. In each
  failing case it returns false, its error message is the documented one, and that
  message is the text of the field's error element when it has one.
\<close>

theorem validateField_email_tel:
  "(field_type f = ''email'' \<and> trim (field_value f) \<noteq> [] \<longrightarrow>
      fst (validateField f) = regex_test emailRegex (trim (field_value f)) \<and>
      regex_test emailRegex (trim (field_value f)) = email_shape (trim (field_value f)) \<and>
      (''is-valid'' \<in> classList (snd (validateField f))) = email_shape (trim (field_value f)) \<and>
      (''is-invalid'' \<in> classList (snd (validateField f)))
        = (\<not> email_shape (trim (field_value f))) \<and>
      (\<not> email_shape (trim (field_value f)) \<longrightarrow>
         fst (validateField f) = False \<and>
         validateField_locals f = (False, ''Please enter a valid email address'') \<and>
         errorElement (snd (validateField f)) =
           map_option (\<lambda>_. ''Please enter a valid email address'') (errorElement f))) \<and>
   (field_type f = ''tel'' \<and> trim (field_value f) \<noteq> [] \<longrightarrow>
      fst (validateField f) = regex_test phoneRegex (trim (field_value f)) \<and>
      regex_test phoneRegex (trim (field_value f)) = phone_shape (trim (field_value f)) \<and>
      (''is-valid'' \<in> classList (snd (validateField f))) = phone_shape (trim (field_value f)) \<and>
      (''is-invalid'' \<in> classList (snd (validateField f)))
        = (\<not> phone_shape (trim (field_value f))) \<and>
      (\<not> phone_shape (trim (field_value f)) \<longrightarrow>
         fst (validateField f) = False \<and>
         validateField_locals f = (False, ''Please enter a valid phone number'') \<and>
         errorElement (snd (validateField f)) =
           map_option (\<lambda>_. ''Please enter a valid phone number'') (errorElement f)))"
  by (simp add: validateField_valid validateField_classes validateField_error
        locals_email locals_tel emailRegex_shape phoneRegex_shape)

lemma trim_email_without_dot:
  "trim (field_value email_without_dot) = js ''pastor@delmarnaz''"
  by (simp add: email_without_dot_def js_def trim_def isWhiteSpace_def)

lemma trim_short_phone: "trim (field_value short_phone) = js ''555-0142''"
  by (simp add: short_phone_def js_def trim_def isWhiteSpace_def)

lemma trim_phone_with_tab:
  "trim (field_value phone_with_tab) = [49, 50, 51, 52, 53, 9, 54, 55, 56, 57, 48]"
  by (simp add: phone_with_tab_def js_def trim_def isWhiteSpace_def)

lemma test_email_without_dot: "\<not> regex_test emailRegex (js ''pastor@delmarnaz'')"
  by (simp add: emailRegex_def Plus_def js_def class_matches_def isWhiteSpace_def)

lemma test_short_phone: "\<not> regex_test phoneRegex (js ''555-0142'')"
  by (simp add: phoneRegex_def AtLeast_10 js_def class_matches_def isDigit_def isWhiteSpace_def)

lemma test_phone_with_tab: "regex_test phoneRegex [49, 50, 51, 52, 53, 9, 54, 55, 56, 57, 48]"
  by (simp add: phoneRegex_def AtLeast_10 class_matches_def isDigit_def isWhiteSpace_def)

theorem validateField_email_tel_witness:
  "field_type email_without_dot = ''email'' \<and>
   trim (field_value email_without_dot) \<noteq> [] \<and>
   \<not> regex_test emailRegex (trim (field_value email_without_dot)) \<and>
   fst (validateField email_without_dot) = False \<and>
   ''is-invalid'' \<in> classList (snd (validateField email_without_dot)) \<and>
   errorElement (snd (validateField email_without_dot))
     = Some ''Please enter a valid email address'' \<and>
   field_type short_phone = ''tel'' \<and>
   trim (field_value short_phone) \<noteq> [] \<and>
   \<not> regex_test phoneRegex (trim (field_value short_phone)) \<and>
   fst (validateField short_phone) = False \<and>
   ''is-invalid'' \<in> classList (snd (validateField short_phone)) \<and>
   errorElement (snd (validateField short_phone)) = Some ''Please enter a valid phone number''"
proof -
  have e1: "field_type email_without_dot = ''email'' \<and> trim (field_value email_without_dot) \<noteq> []"
    by (simp add: trim_email_without_dot) (simp add: email_without_dot_def js_def)
  have e2: "\<not> regex_test emailRegex (trim (field_value email_without_dot))"
    unfolding trim_email_without_dot by (rule test_email_without_dot)
  have e3: "errorElement email_without_dot = Some ''''"
    by (simp add: email_without_dot_def)
  have p1: "field_type short_phone = ''tel'' \<and> trim (field_value short_phone) \<noteq> []"
    by (simp add: trim_short_phone) (simp add: short_phone_def js_def)
  have p2: "\<not> regex_test phoneRegex (trim (field_value short_phone))"
    unfolding trim_short_phone by (rule test_short_phone)
  have p3: "errorElement short_phone = Some ''''"
    by (simp add: short_phone_def)
  from validateField_email_tel [of email_without_dot] e1 e2 e3
  have "fst (validateField email_without_dot) = False \<and>
        ''is-invalid'' \<in> classList (snd (validateField email_without_dot)) \<and>
        errorElement (snd (validateField email_without_dot))
          = Some ''Please enter a valid email address''"
    by simp
  moreover from validateField_email_tel [of short_phone] p1 p2 p3
  have "fst (validateField short_phone) = False \<and>
        ''is-invalid'' \<in> classList (snd (validateField short_phone)) \<and>
        errorElement (snd (validateField short_phone)) = Some ''Please enter a valid phone number''"
    by simp
  ultimately show ?thesis using e1 e2 p1 p2 by blast
qed

text \<open>
  Claim C1 as the specification words it fails: a phone value of ten digits with a tab
  inside is not made of digits, spaces, \<open>-\<close>, \<open>+\<close>, \<open>(\<close> and \<open>)\<close> alone, and
  \<open>validateField\<close> marks it valid, since \<open>\s\<close> matches the tab.
\<close>

theorem validateField_tab_counterexample:
  "field_type phone_with_tab = ''tel'' \<and>
   trim (field_value phone_with_tab) \<noteq> [] \<and>
   fst (validateField phone_with_tab) \<and>
   ''is-valid'' \<in> classList (snd (validateField phone_with_tab)) \<and>
   \<not> spec_phone_shape (trim (field_value phone_with_tab))"
proof -
  have t: "field_type phone_with_tab = ''tel''"
    by (simp add: phone_with_tab_def)
  have ne: "trim (field_value phone_with_tab) \<noteq> []"
    by (simp add: trim_phone_with_tab)
  have "regex_test phoneRegex (trim (field_value phone_with_tab))"
    unfolding trim_phone_with_tab by (rule test_phone_with_tab)
  then have "validateField_locals phone_with_tab = (True, '''')"
    using t ne by (simp add: locals_tel)
  moreover have "\<not> spec_phone_shape (trim (field_value phone_with_tab))"
    by (simp add: trim_phone_with_tab spec_phone_shape_def spec_phone_char_def isDigit_def)
  ultimately show ?thesis
    using t ne by (simp add: validateField_valid validateField_classes)
qed


section \<open>Scroll thresholds\<close>

text \<open>
  Claim C4, as the code has it. After \<open>StickyHeader.handleScroll\<close> the header has the
  class \<open>scrolled\<close> exactly when \<open>window.scrollY\<close> exceeds 10, and the function
  leaves \<open>isHidden\<close>, the header's transform and \<open>lastScrollY\<close> as they were: it
  never hides or shows the header. After \<open>BackToTop.toggleVisibility\<close> the button has
  the class \<open>visible\<close> exactly when \<open>window.scrollY\<close> exceeds 500.
\<close>

theorem scroll_thresholds:
  "(''scrolled'' \<in> header_classes (StickyHeader_handleScroll y h)) = (y > 10) \<and>
   isHidden (StickyHeader_handleScroll y h) = isHidden h \<and>
   header_transform (StickyHeader_handleScroll y h) = header_transform h \<and>
   lastScrollY (StickyHeader_handleScroll y h) = lastScrollY h \<and>
   (''visible'' \<in> BackToTop_toggleVisibility y b) = (y > 500)"
  by (simp add: StickyHeader_handleScroll_def BackToTop_toggleVisibility_def)

text \<open>
  Claim C4 as the specification words it fails: scrolling down from the top to 300 pixels,
  past the 200 pixel mark, leaves the header unhidden and its transform untouched.
\<close>

theorem scroll_hide_counterexample:
  "lastScrollY header_at_top < 300 \<and> (200 :: real) < 300 \<and>
   \<not> isHidden (StickyHeader_handleScroll 300 header_at_top) \<and>
   header_transform (StickyHeader_handleScroll 300 header_at_top) \<noteq> ''translateY(-100%)''"
  by (simp add: StickyHeader_handleScroll_def header_at_top_def)

section \<open>Menus\<close>

lemma focus_menu: "menu_open (focus el p) m = menu_open p m"
  by (cases m) (simp_all add: focus_def)

lemma toggleDropdown_frame:
  "m \<noteq> Dropdown i \<Longrightarrow> menu_open (DesktopNav_toggleDropdown i b p) m = menu_open p m"
  by (cases m) (simp_all add: DesktopNav_toggleDropdown_def)

lemma linkKeydown_frame:
  "m \<noteq> Dropdown i \<Longrightarrow> menu_open (DesktopNav_linkKeydown i key p) m = menu_open p m"
  by (simp add: DesktopNav_linkKeydown_def Let_def focus_menu toggleDropdown_frame)

lemma dropdownKeydown_frame:
  "m \<noteq> Dropdown i \<Longrightarrow> menu_open (DesktopNav_dropdownKeydown i key p) m = menu_open p m"
  by (simp add: DesktopNav_dropdownKeydown_def Let_def focus_menu toggleDropdown_frame)

lemma trapFocus_dropdowns: "dropdowns (MobileNav_trapFocus p) = dropdowns p"
  by (simp add: MobileNav_trapFocus_def Let_def)

lemma open_dropdowns: "dropdowns (MobileNav_open p) = dropdowns p"
  by (simp add: MobileNav_open_def Let_def trapFocus_dropdowns focus_def split: list.splits)

lemma close_dropdowns: "dropdowns (MobileNav_close p) = dropdowns p"
  by (simp add: MobileNav_close_def Let_def focus_def split: option.splits)

lemma handleTabKey_dropdowns: "dropdowns (handleTabKey trap key shiftKey p) = dropdowns p"
  by (simp add: handleTabKey_def focus_def split: prod.splits option.splits)

lemma mobile_op_dropdowns:
  "op_menu a = MobileMenu \<Longrightarrow> dropdowns (run_op a p) = dropdowns p"
  by (cases a)
     (simp_all add: MobileNav_toggle_def MobileNav_onEscape_def MobileNav_onResize_def
        open_dropdowns close_dropdowns handleTabKey_dropdowns split: option.splits)

lemma run_op_frame: "op_menu a \<noteq> m \<Longrightarrow> menu_open (run_op a p) m = menu_open p m"
proof (cases "op_menu a")
  case MobileMenu
  assume "op_menu a \<noteq> m"
  with MobileMenu obtain j where "m = Dropdown j" by (cases m) auto
  with MobileMenu show ?thesis by (simp add: mobile_op_dropdowns)
next
  case (Dropdown i)
  assume "op_menu a \<noteq> m"
  with Dropdown have "m \<noteq> Dropdown i" by simp
  with Dropdown show ?thesis
    by (cases a) (simp_all add: linkKeydown_frame dropdownKeydown_frame)
qed

text \<open>
  Claim C5, as the code has it. An operation changes the open state of no menu but the one
  it is invoked on: through any sequence of operations none of which is invoked on a menu
  \<open>m\<close>, that menu stays open if it was open and closed if it was closed. Nothing closes
  a menu because another one opens, so several menus can be open together.
\<close>

theorem nav_ops_frame:
  "\<forall>a \<in> set as. op_menu a \<noteq> m \<Longrightarrow> menu_open (run_ops as p) m = menu_open p m"
  by (induction as arbitrary: p) (simp_all add: run_op_frame)

lemma fresh_closed:
  "\<not> menu_open fresh_page MobileMenu \<and> \<not> menu_open fresh_page (Dropdown 0)
   \<and> \<not> menu_open fresh_page (Dropdown 1)"
  by (simp add: fresh_page_def closed_dropdown_def)

text \<open>
  Claim C5 as the specification words it fails: from a page with everything closed, the
  down arrow on the first trigger, Enter on the second and opening the mobile nav leave the
  mobile nav and both dropdowns open.
\<close>

theorem several_menus_open_counterexample:
  "\<not> menu_open fresh_page MobileMenu \<and>
   \<not> menu_open fresh_page (Dropdown 0) \<and>
   \<not> menu_open fresh_page (Dropdown 1) \<and>
   menu_open (run_ops [LinkKeydown 0 ''ArrowDown'', LinkKeydown 1 ''Enter'', Open] fresh_page)
     MobileMenu \<and>
   menu_open (run_ops [LinkKeydown 0 ''ArrowDown'', LinkKeydown 1 ''Enter'', Open] fresh_page)
     (Dropdown 0) \<and>
   menu_open (run_ops [LinkKeydown 0 ''ArrowDown'', LinkKeydown 1 ''Enter'', Open] fresh_page)
     (Dropdown 1)"
  by (simp add: fresh_page_def closed_dropdown_def DesktopNav_linkKeydown_def
        DesktopNav_toggleDropdown_def MobileNav_open_def MobileNav_trapFocus_def focus_def
        js_bool_def at_index_def Let_def)

theorem nav_ops_frame_witness:
  "op_menu (LinkKeydown 1 ''Enter'') \<noteq> Dropdown 0 \<and> op_menu Open \<noteq> Dropdown 0 \<and>
   menu_open (run_op (LinkKeydown 0 ''ArrowDown'') fresh_page) (Dropdown 0) \<and>
   menu_open (run_ops [LinkKeydown 1 ''Enter'', Open]
               (run_op (LinkKeydown 0 ''ArrowDown'') fresh_page)) (Dropdown 0)"
proof -
  have h: "\<forall>a \<in> set [LinkKeydown 1 ''Enter'', Open]. op_menu a \<noteq> Dropdown 0"
    by simp
  have o: "menu_open (run_op (LinkKeydown 0 ''ArrowDown'') fresh_page) (Dropdown 0)"
    by (simp add: fresh_page_def closed_dropdown_def DesktopNav_linkKeydown_def
          DesktopNav_toggleDropdown_def focus_def js_bool_def Let_def)
  from nav_ops_frame [OF h, of "run_op (LinkKeydown 0 ''ArrowDown'') fresh_page"] o
  have "menu_open (run_ops [LinkKeydown 1 ''Enter'', Open]
               (run_op (LinkKeydown 0 ''ArrowDown'') fresh_page)) (Dropdown 0)"
    by blast
  with o show ?thesis by simp
qed

lemma open_facts:
  "isOpen (MobileNav_open p)"
  "toggle_aria_expanded (MobileNav_open p) = Some ''true''"
  "''open'' \<in> nav_classes (MobileNav_open p)"
  "lastFocusedElement (MobileNav_open p) = activeElement p"
  "takes_focus (MobileNav_open p) = takes_focus p"
  "activeElement (MobileNav_open p) =
     (case nav_focusable p of
        [] \<Rightarrow> activeElement p
      | el # els \<Rightarrow> (if takes_focus p el then Some el else activeElement p))"
  by (simp_all add: MobileNav_open_def MobileNav_trapFocus_def focus_def Let_def
        split: list.splits)

lemma close_facts:
  "\<not> isOpen (MobileNav_close p)"
  "toggle_aria_expanded (MobileNav_close p) = Some ''false''"
  "''open'' \<notin> nav_classes (MobileNav_close p)"
  "lastFocusedElement (MobileNav_close p) = lastFocusedElement p"
  "takes_focus (MobileNav_close p) = takes_focus p"
  "activeElement (MobileNav_close p) =
     (case lastFocusedElement p of
        None \<Rightarrow> activeElement p
      | Some el \<Rightarrow> (if takes_focus p el then Some el else activeElement p))"
  by (simp_all add: MobileNav_close_def focus_def Let_def split: option.splits)

lemma toggleDropdown_kept:
  "lastFocusedElement (DesktopNav_toggleDropdown i b p) = lastFocusedElement p"
  "takes_focus (DesktopNav_toggleDropdown i b p) = takes_focus p"
  by (simp_all add: DesktopNav_toggleDropdown_def)

lemma focus_kept:
  "lastFocusedElement (focus el p) = lastFocusedElement p"
  "takes_focus (focus el p) = takes_focus p"
  by (simp_all add: focus_def)

lemma run_op_lastFocused:
  "a \<noteq> Open \<Longrightarrow> a \<noteq> Toggle \<Longrightarrow> lastFocusedElement (run_op a p) = lastFocusedElement p"
  by (cases a)
     (simp_all add: MobileNav_onEscape_def MobileNav_onResize_def close_facts handleTabKey_def
        DesktopNav_linkKeydown_def DesktopNav_dropdownKeydown_def Let_def
        toggleDropdown_kept focus_kept split: option.splits prod.splits)

lemma run_op_takes_focus: "takes_focus (run_op a p) = takes_focus p"
  by (cases a)
     (simp_all add: MobileNav_toggle_def MobileNav_onEscape_def MobileNav_onResize_def
        open_facts close_facts handleTabKey_def
        DesktopNav_linkKeydown_def DesktopNav_dropdownKeydown_def Let_def
        toggleDropdown_kept focus_kept split: option.splits prod.splits)

lemma run_ops_takes_focus: "takes_focus (run_ops as p) = takes_focus p"
  by (induction as arbitrary: p) (simp_all add: run_op_takes_focus)

lemma run_ops_lastFocused:
  "Open \<notin> set as \<Longrightarrow> Toggle \<notin> set as \<Longrightarrow>
   lastFocusedElement (run_ops as p) = lastFocusedElement p"
proof (induction as arbitrary: p)
  case Nil
  show ?case by simp
next
  case (Cons a as)
  then have "a \<noteq> Open" "a \<noteq> Toggle" "Open \<notin> set as" "Toggle \<notin> set as" by auto
  with Cons.IH [of "run_op a p"] show ?case by (simp add: run_op_lastFocused)
qed

text \<open>
  What \<open>MobileNav.open\<close> and \<open>MobileNav.close\<close> do. \<open>open\<close> sets \<open>isOpen\<close>,
  sets \<open>aria-expanded\<close> of the toggle button to \<open>true\<close>, adds the class \<open>open\<close>
  and calls \<open>focus()\<close> on the first element the selector finds: the focus moves there
  when that element can take it, and stays where it was when it cannot. \<open>close\<close>
  clears \<open>isOpen\<close>, sets \<open>aria-expanded\<close> to \<open>false\<close>, removes the class
  \<open>open\<close> and gives the focus back to the element that had it before the nav was
  opened, when that element can take it, whatever happened in between short of opening the
  nav again.
\<close>

lemma MobileNav_open_close_effects:
  "isOpen (MobileNav_open p) \<and>
   toggle_aria_expanded (MobileNav_open p) = Some ''true'' \<and>
   ''open'' \<in> nav_classes (MobileNav_open p) \<and>
   (\<forall>el els. nav_focusable p = el # els \<and> takes_focus p el \<longrightarrow>
      activeElement (MobileNav_open p) = Some el) \<and>
   (\<forall>el els. nav_focusable p = el # els \<and> \<not> takes_focus p el \<longrightarrow>
      activeElement (MobileNav_open p) = activeElement p) \<and>
   \<not> isOpen (MobileNav_close p) \<and>
   toggle_aria_expanded (MobileNav_close p) = Some ''false'' \<and>
   ''open'' \<notin> nav_classes (MobileNav_close p) \<and>
   (\<forall>el as. activeElement p = Some el \<and> takes_focus p el \<and>
        Open \<notin> set as \<and> Toggle \<notin> set as \<longrightarrow>
      activeElement (MobileNav_close (run_ops as (MobileNav_open p))) = Some el)"
  by (simp add: open_facts close_facts run_ops_lastFocused run_ops_takes_focus)

lemma MobileNav_open_close_example:
  "activeElement fresh_page = Some MenuToggle \<and>
   activeElement (MobileNav_open fresh_page) = Some (NavElement 0) \<and>
   activeElement (run_ops [TabKey 0 True] (MobileNav_open fresh_page)) = Some (NavElement 1) \<and>
   activeElement (MobileNav_close (run_ops [TabKey 0 True, EscapeKey] (MobileNav_open fresh_page)))
     = Some MenuToggle"
proof -
  have f: "nav_focusable fresh_page = NavElement 0 # [NavElement 1]"
    and a: "activeElement fresh_page = Some MenuToggle"
    and t: "takes_focus fresh_page (NavElement 0)" "takes_focus fresh_page MenuToggle"
    by (simp_all add: fresh_page_def)
  have n: "Open \<notin> set [TabKey 0 True, EscapeKey] \<and> Toggle \<notin> set [TabKey 0 True, EscapeKey]"
    by simp
  have k: "activeElement (run_ops [TabKey 0 True] (MobileNav_open fresh_page))
             = Some (NavElement 1)"
    by (simp add: fresh_page_def MobileNav_open_def MobileNav_trapFocus_def focus_def
          at_index_def handleTabKey_def Let_def)
  from MobileNav_open_close_effects [of fresh_page] f t(1)
  have "activeElement (MobileNav_open fresh_page) = Some (NavElement 0)" by blast
  moreover from MobileNav_open_close_effects [of fresh_page] a t(2) n
  have "activeElement (MobileNav_close (run_ops [TabKey 0 True, EscapeKey]
          (MobileNav_open fresh_page))) = Some MenuToggle" by blast
  ultimately show ?thesis using a k by blast
qed

text \<open>
  Claim C8 fails on the code. In a nav whose first element matching the selector is a
  disabled button and whose second is an ordinary link, the link is the first focusable
  element inside the nav, and \<open>MobileNav.open\<close> does not move the focus to it: it calls
  \<open>focus()\<close> on the button, which does nothing, so the focus stays on the menu toggle
  outside the nav. The flag, the attribute and the class are set as claimed.
\<close>

theorem open_leaves_focus_outside:
  "nav_focusable disabled_first_page = [NavElement 0, NavElement 1] \<and>
   \<not> takes_focus disabled_first_page (NavElement 0) \<and>
   takes_focus disabled_first_page (NavElement 1) \<and>
   find (takes_focus disabled_first_page) (nav_focusable disabled_first_page)
     = Some (NavElement 1) \<and>
   activeElement disabled_first_page = Some MenuToggle \<and>
   isOpen (MobileNav_open disabled_first_page) \<and>
   toggle_aria_expanded (MobileNav_open disabled_first_page) = Some ''true'' \<and>
   ''open'' \<in> nav_classes (MobileNav_open disabled_first_page) \<and>
   activeElement (MobileNav_open disabled_first_page) = Some MenuToggle \<and>
   activeElement (MobileNav_open disabled_first_page) \<noteq> Some (NavElement 1)"
  by (simp add: disabled_first_page_def fresh_page_def MobileNav_open_def
        MobileNav_trapFocus_def focus_def at_index_def Let_def)


section \<open>LanguageSwitcher: configuration lookups\<close>

lemma languages_cases:
  "languages c = Config cfg \<Longrightarrow>
   (c = ''en'' \<and> cfg = en_config) \<or> (c = ''ht'' \<and> cfg = ht_config) \<or> (c = ''fr'' \<and> cfg = fr_config)"
  by (auto simp: languages_def split: if_splits option.splits)

lemma enabled_only_en: "enabled_of (languages c) = (c = ''en'')"
proof (cases "languages c")
  case (Config cfg)
  from languages_cases [OF Config] Config show ?thesis
    by (auto simp: en_config_def ht_config_def fr_config_def)
next
  case Undefined
  then show ?thesis by (auto simp: languages_def)
next
  case (Inherited n)
  then show ?thesis by (auto simp: languages_def)
qed

lemma disabled_languages:
  "(\<exists>cfg. languages c = Config cfg \<and> \<not> enabled cfg) = (c = ''ht'' \<or> c = ''fr'')"
proof
  assume "\<exists>cfg. languages c = Config cfg \<and> \<not> enabled cfg"
  then obtain cfg where c: "languages c = Config cfg" and d: "\<not> enabled cfg" by blast
  from languages_cases [OF c] d show "c = ''ht'' \<or> c = ''fr''"
    by (auto simp: en_config_def)
next
  assume "c = ''ht'' \<or> c = ''fr''"
  then show "\<exists>cfg. languages c = Config cfg \<and> \<not> enabled cfg"
    by (auto simp: languages_def ht_config_def fr_config_def)
qed

section \<open>LanguageSwitcher.handleLanguageChange\<close>

text \<open>
  Claim C2. For a language code whose configuration is present but disabled (by
  \<open>disabled_languages\<close> these are \<open>ht\<close> and \<open>fr\<close>),
  \<open>handleLanguageChange\<close> shows the coming-soon message and returns: the path, the
  value assigned to \<open>window.location.href\<close>, the storage and the current language are
  what they were, so \<open>switchLanguage\<close> was not called and nothing navigates.
\<close>

theorem disabled_language_never_navigates:
  assumes "languages c = Config cfg" and "\<not> enabled cfg"
  shows "handleLanguageChange c s = Returned (showComingSoonMessage (Config cfg) s) \<and>
         toasts (showComingSoonMessage (Config cfg) s) = toasts s @ [nativeName cfg] \<and>
         pathname (showComingSoonMessage (Config cfg) s) = pathname s \<and>
         location_href (showComingSoonMessage (Config cfg) s) = location_href s \<and>
         localStorage (showComingSoonMessage (Config cfg) s) = localStorage s \<and>
         currentLanguage (showComingSoonMessage (Config cfg) s) = currentLanguage s"
  using assms by (simp add: handleLanguageChange_def showComingSoonMessage_def)

theorem disabled_language_never_navigates_witness:
  "languages ''ht'' = Config ht_config \<and> \<not> enabled ht_config \<and>
   languages ''fr'' = Config fr_config \<and> \<not> enabled fr_config \<and>
   handleLanguageChange ''ht'' first_visit
     = Returned (showComingSoonMessage (Config ht_config) first_visit) \<and>
   handleLanguageChange ''fr'' first_visit
     = Returned (showComingSoonMessage (Config fr_config) first_visit) \<and>
   location_href (showComingSoonMessage (Config ht_config) first_visit) = None \<and>
   location_href (showComingSoonMessage (Config fr_config) first_visit) = None"
proof -
  have ht: "languages ''ht'' = Config ht_config" and nht: "\<not> enabled ht_config"
    and fr: "languages ''fr'' = Config fr_config" and nfr: "\<not> enabled fr_config"
    by (simp_all add: languages_def ht_config_def fr_config_def)
  have l: "location_href first_visit = None"
    by (simp add: first_visit_def)
  from disabled_language_never_navigates [OF ht nht, of first_visit]
       disabled_language_never_navigates [OF fr nfr, of first_visit] l
  show ?thesis using ht nht fr nfr by simp
qed

text \<open>
  Claim C10. \<open>handleLanguageChange\<close> with an enabled language code that is the current
  language returns the state it was given: the stored preference, the history of storage
  writes, \<open>currentLanguage\<close> and \<open>window.location\<close> are unchanged.
\<close>

theorem same_language_is_noop:
  "enabled_of (languages c) \<Longrightarrow> c = currentLanguage s \<Longrightarrow> handleLanguageChange c s = Returned s"
  by (cases "languages c") (simp_all add: handleLanguageChange_def)

theorem same_language_is_noop_witness:
  "enabled_of (languages ''en'') \<and> ''en'' = currentLanguage first_visit \<and>
   handleLanguageChange ''en'' first_visit = Returned first_visit"
proof -
  have e: "enabled_of (languages ''en'')"
    by (simp add: languages_def en_config_def)
  have c: "''en'' = currentLanguage first_visit"
    by (simp add: first_visit_def)
  from same_language_is_noop [OF e c] e c show ?thesis by simp
qed

section \<open>LanguageSwitcher: stored preference\<close>

text \<open>
  Claim C3. When the storage raises on neither write nor read, \<open>storePreference c\<close>
  followed by \<open>getStoredPreference\<close> returns \<open>c\<close>, held under the key
  \<open>delmar-preferred-language\<close>.
\<close>

theorem preference_round_trip:
  assumes "\<not> setItem_throws (localStorage s)" and "\<not> getItem_throws (localStorage s)"
  shows "fst (getStoredPreference (storePreference c s)) = Some c \<and>
         items (localStorage (storePreference c s)) ''delmar-preferred-language'' = Some c"
  using assms
  by (simp add: getStoredPreference_def storePreference_def setItem_def getItem_def
        storageKey_def)

theorem preference_round_trip_witness:
  "\<not> setItem_throws (localStorage first_visit) \<and> \<not> getItem_throws (localStorage first_visit) \<and>
   fst (getStoredPreference (storePreference ''fr'' first_visit)) = Some ''fr''"
proof -
  have a: "\<not> setItem_throws (localStorage first_visit)"
    and b: "\<not> getItem_throws (localStorage first_visit)"
    by (simp_all add: first_visit_def)
  from preference_round_trip [OF a b, of "''fr''"] a b show ?thesis by simp
qed

text \<open>
  Claim C7. When writing raises, \<open>storePreference\<close> logs a warning and changes nothing
  else, so the stored preference is what it was; when reading raises,
  \<open>getStoredPreference\<close> logs a warning and returns \<open>null\<close>. Both are functions
  from states to states here: no exception leaves them.
\<close>

theorem storage_exceptions_caught:
  "(setItem_throws (localStorage s) \<longrightarrow>
      storePreference c s
        = s\<lparr>console := console s @ [Warn ''Could not store language preference:'']\<rparr> \<and>
      localStorage (storePreference c s) = localStorage s \<and>
      stored_preference (storePreference c s) = stored_preference s) \<and>
   (getItem_throws (localStorage s) \<longrightarrow>
      getStoredPreference s
        = (None, s\<lparr>console := console s @ [Warn ''Could not retrieve language preference:'']\<rparr>))"
  by (simp add: storePreference_def getStoredPreference_def setItem_def getItem_def
        stored_preference_def)

theorem storage_exceptions_caught_witness:
  "setItem_throws (localStorage blocked_visit) \<and> getItem_throws (localStorage blocked_visit) \<and>
   stored_preference (storePreference ''en'' blocked_visit) = None \<and>
   console (storePreference ''en'' blocked_visit)
     = [Warn ''Could not store language preference:''] \<and>
   fst (getStoredPreference blocked_visit) = None \<and>
   console (snd (getStoredPreference blocked_visit))
     = [Warn ''Could not retrieve language preference:'']"
proof -
  have a: "setItem_throws (localStorage blocked_visit)"
    and b: "getItem_throws (localStorage blocked_visit)"
    and c: "console blocked_visit = []"
    and d: "stored_preference blocked_visit = None"
    by (simp_all add: blocked_visit_def first_visit_def stored_preference_def)
  from storage_exceptions_caught [of blocked_visit "''en''"] a b c d
  show ?thesis by (simp add: stored_preference_def)
qed


section \<open>LanguageSwitcher: detection\<close>

text \<open>
  The order of detection where the stored value, if any, is not the name of a property
  inherited from \<open>Object.prototype\<close>: the path prefix, then a stored known code, then
  the browser languages, which in this configuration always end in \<open>en\<close>.
\<close>

lemma truthy_languages:
  "truthy (languages v) = (known_language v \<or> v \<in> fst ` set object_prototype)"
  unfolding dom_map_of_conv_image_fst [symmetric]
  by (auto simp: languages_def known_language_def domIff split: option.splits)

lemma languages_empty: "\<not> truthy (languages [])"
  by (simp add: languages_def object_prototype_def)

lemma setupButtons_storage: "localStorage (setupButtons s) = localStorage s"
  by (simp add: setupButtons_def)

lemma updateDocumentLanguage_storage: "localStorage (updateDocumentLanguage s) = localStorage s"
  by (simp add: updateDocumentLanguage_def Let_def)

lemma pathMatch_known: "pathMatch p = Some l \<Longrightarrow> known_language l"
  by (auto simp: pathMatch_def known_language_def split: if_splits)

lemma detectBrowserLanguage_loop_en: "detectBrowserLanguage_loop ls = Inr l \<Longrightarrow> l = ''en''"
proof (induction ls rule: detectBrowserLanguage_loop.induct)
  case 1
  then show ?case by (simp add: defaultLanguage_def)
next
  case (2 rest)
  then show ?case by simp
next
  case (3 lang rest)
  then show ?case
    by (auto simp: Let_def enabled_only_en ht_config_def split: if_splits)
qed

lemma detectBrowserLanguage_loop_defined:
  "detectBrowserLanguage_loop (map Some ls) = Inr ''en''"
proof (induction ls)
  case Nil
  show ?case by (simp add: defaultLanguage_def)
next
  case (Cons l ls)
  then show ?case by (simp add: Let_def enabled_only_en ht_config_def)
qed

lemma detectCurrentLanguage_path:
  "pathMatch (pathname s) = Some l \<Longrightarrow> detectCurrentLanguage s = Inr l"
  by (frule pathMatch_known) (simp add: detectCurrentLanguage_def truthy_languages)

lemma detectCurrentLanguage_stored:
  "pathMatch (pathname s) = None \<Longrightarrow> \<not> getItem_throws (localStorage s) \<Longrightarrow>
   stored_preference s = Some v \<Longrightarrow> known_language v \<Longrightarrow> detectCurrentLanguage s = Inr v"
  by (auto simp: detectCurrentLanguage_def getItem_def stored_preference_def truthy_languages
        known_language_def)

lemma detectCurrentLanguage_browser:
  "pathMatch (pathname s) = None \<Longrightarrow> \<not> getItem_throws (localStorage s) \<Longrightarrow>
   (\<forall>v. stored_preference s = Some v \<longrightarrow> \<not> truthy (languages v)) \<Longrightarrow>
   detectCurrentLanguage s = detectBrowserLanguage s"
  by (auto simp: detectCurrentLanguage_def getItem_def stored_preference_def
        split: option.splits)

lemma detectCurrentLanguage_throws:
  "pathMatch (pathname s) = None \<Longrightarrow> getItem_throws (localStorage s) \<Longrightarrow>
   detectCurrentLanguage s = Inl StorageError"
  by (simp add: detectCurrentLanguage_def getItem_def)

lemma detectCurrentLanguage_known:
  assumes "detectCurrentLanguage s = Inr l"
    and "\<forall>v. stored_preference s = Some v \<longrightarrow> v \<notin> fst ` set object_prototype"
  shows "known_language l"
proof (cases "pathMatch (pathname s)")
  case (Some l')
  with assms(1) have "l = l'" by (simp add: detectCurrentLanguage_path)
  with Some show ?thesis by (simp add: pathMatch_known)
next
  case None
  show ?thesis
  proof (cases "\<exists>v. stored_preference s = Some v \<and> truthy (languages v)")
    case True
    then obtain v where v: "stored_preference s = Some v" "truthy (languages v)" by blast
    with assms(2) have k: "known_language v" by (simp add: truthy_languages)
    from assms(1) None v have "l = v"
      by (auto simp: detectCurrentLanguage_def getItem_def stored_preference_def
            languages_empty split: if_splits)
    with k show ?thesis by simp
  next
    case False
    with assms(1) None have "detectBrowserLanguage s = Inr l"
      by (auto simp: detectCurrentLanguage_def getItem_def stored_preference_def
            split: if_splits option.splits)
    then have "l = ''en''"
      unfolding detectBrowserLanguage_def by (rule detectBrowserLanguage_loop_en)
    then show ?thesis by (simp add: known_language_def)
  qed
qed

lemma storePreference_written:
  "written (localStorage (storePreference c s)) =
     (if setItem_throws (localStorage s) then written (localStorage s)
      else written (localStorage s) @ [(storageKey, c)])"
  by (simp add: storePreference_def setItem_def)

lemma init_written:
  "init s = Returned s' \<Longrightarrow>
   \<exists>l. detectCurrentLanguage s = Inr l \<and>
       written (localStorage s') =
         (if setItem_throws (localStorage s) then written (localStorage s)
          else written (localStorage s) @ [(storageKey, l)])"
  by (cases "detectCurrentLanguage s")
     (auto simp: init_def Let_def updateDocumentLanguage_storage storePreference_written
        setupButtons_storage setupButtons_def)

lemma init_writes_known:
  assumes "init s = Returned s'"
    and "\<forall>v. stored_preference s = Some v \<longrightarrow> v \<notin> fst ` set object_prototype"
  shows "\<exists>l. known_language l \<and>
           (written (localStorage s') = written (localStorage s) \<or>
            written (localStorage s') = written (localStorage s) @ [(storageKey, l)])"
proof -
  from init_written [OF assms(1)] obtain l where d: "detectCurrentLanguage s = Inr l"
    and w: "written (localStorage s') =
         (if setItem_throws (localStorage s) then written (localStorage s)
          else written (localStorage s) @ [(storageKey, l)])" by blast
  from detectCurrentLanguage_known [OF d assms(2)] have "known_language l" .
  with w show ?thesis by (cases "setItem_throws (localStorage s)") auto
qed

lemma handleLanguageChange_writes_en:
  "handleLanguageChange c s = Returned s' \<Longrightarrow>
   written (localStorage s') = written (localStorage s) \<or>
   written (localStorage s') = written (localStorage s) @ [(storageKey, ''en'')]"
  by (cases "languages c")
     (auto simp: handleLanguageChange_def Let_def showComingSoonMessage_def switchLanguage_def
        storePreference_written enabled_only_en [symmetric] split: if_splits)

lemma handleLanguageChange_returns: "handleLanguageChange c s \<noteq> Threw e s'"
  by (cases "languages c")
     (auto simp: handleLanguageChange_def Let_def switchLanguage_def split: if_splits)

lemma foreign_visit_facts:
  "pathMatch (pathname foreign_visit) = None"
  "stored_preference foreign_visit = Some ''constructor''"
  "written (localStorage foreign_visit) = []"
  "\<not> setItem_throws (localStorage foreign_visit)"
  "\<not> getItem_throws (localStorage foreign_visit)"
  "navigator foreign_visit = \<lparr>nav_languages = Some [''en-US'', ''en''],
      nav_language = Some ''en-US'', nav_userLanguage = None\<rparr>"
  by (simp_all add: foreign_visit_def first_visit_def pathMatch_def stored_preference_def)

lemma foreign_visit_detect: "detectCurrentLanguage foreign_visit = Inr ''constructor''"
  using foreign_visit_facts(1,2,5)
  by (simp add: detectCurrentLanguage_def getItem_def stored_preference_def languages_def
        object_prototype_def)

text \<open>
  Claim C6 fails on the code. With \<open>constructor\<close> under the storage key and no
  language prefix in the path, \<open>detectCurrentLanguage\<close> accepts the stored string,
  because \<open>this.config.languages['constructor']\<close> is the inherited, truthy
  \<open>Object\<close>, and \<open>init\<close> writes \<open>constructor\<close> back under the key: a value
  that is none of \<open>en\<close>, \<open>ht\<close>, \<open>fr\<close>. (\<open>init_writes_known\<close> and
  \<open>handleLanguageChange_writes_en\<close> show that every other write is a known code.)
\<close>

theorem init_writes_foreign_value:
  "stored_preference foreign_visit = Some ''constructor'' \<and>
   written (localStorage foreign_visit) = [] \<and>
   \<not> known_language ''constructor'' \<and>
   (case init foreign_visit of Returned s' \<Rightarrow> written (localStorage s') | Threw e s' \<Rightarrow> [])
     = [(''delmar-preferred-language'', ''constructor'')]"
  using foreign_visit_facts(2,3,4)
  by (simp add: known_language_def init_def foreign_visit_detect Let_def
        updateDocumentLanguage_storage storePreference_written setupButtons_storage
        setupButtons_def storageKey_def)

text \<open>
  Claim C9 fails on the code at the same input: the path has no language prefix, the stored
  string \<open>constructor\<close> is no known language code and the browser languages lead to
  \<open>en\<close>, yet \<open>detectCurrentLanguage\<close> returns \<open>constructor\<close>.
\<close>

theorem detect_returns_foreign_value:
  "pathMatch (pathname foreign_visit) = None \<and>
   stored_preference foreign_visit = Some ''constructor'' \<and>
   \<not> known_language ''constructor'' \<and>
   detectBrowserLanguage foreign_visit = Inr ''en'' \<and>
   detectCurrentLanguage foreign_visit = Inr ''constructor''"
proof -
  have "detectBrowserLanguage foreign_visit = Inr ''en''"
    unfolding detectBrowserLanguage_def foreign_visit_facts(6) browserLangs_def
    by (simp add: Let_def toLowerCase_def toLowerCase_char_def split_first_def enabled_of.simps
          languages_def en_config_def ht_config_def)
  then show ?thesis
    using foreign_visit_facts(1,2)
    by (simp add: known_language_def foreign_visit_detect)
qed

text \<open>
  The read in \<open>detectCurrentLanguage\<close> is not guarded the way
  \<open>getStoredPreference\<close> is: with a storage that raises, \<open>init\<close> ends in the
  exception.
\<close>

lemma init_blocked: "init blocked_visit = Threw StorageError blocked_visit"
proof -
  have "pathMatch (pathname blocked_visit) = None"
    and "getItem_throws (localStorage blocked_visit)"
    by (simp_all add: blocked_visit_def first_visit_def pathMatch_def)
  then have "detectCurrentLanguage blocked_visit = Inl StorageError"
    by (rule detectCurrentLanguage_throws)
  then show ?thesis by (simp add: init_def)
qed

end
